theory Spec2Isabelle
  imports Complex_Main
begin

section \<open>The event handler of the main window (mcomix/event.py)\<close>

text \<open>
  The handler turns key presses, wheel ticks and pointer drags into scroll and page-flip
  requests on the main window. The window itself (\<open>self._window\<close>) and the
  preference dictionary (\<open>prefs\<close>) are defined outside \<open>event.py\<close>; they enter
  the model as parameters: the preferences as a record of the keys the handler reads, the
  window as a record of its operations over an abstract window state \<open>'w\<close>.
\<close>

subsection \<open>Data\<close>

text \<open>The third argument of \<open>scroll\<close>: \<open>'first'\<close>, \<open>'second'\<close>, or absent.\<close>

datatype subpage = First | Second

text \<open>The keyword arguments \<open>horiz\<close> and \<open>vert\<close> of \<open>scroll_to_fixed\<close>.\<close>

datatype horiz = Hleft | Hmiddle | Hright | Startfirst | Endfirst | Startsecond | Endsecond

datatype vert = Vtop | Vmiddle | Vbottom

text \<open>The calls of the handler that change the window, in the order they are made.\<close>

datatype call =
    Scroll int int "subpage option"
  | ScrollToFixed "horiz option" "vert option"
  | NextPage
  | PreviousPage

text \<open>
  The preference keys read by the handler: \<open>'smart scroll'\<close>,
  \<open>'invert smart scroll'\<close>, \<open>'smart scroll percentage'\<close>, \<open>'flip with wheel'\<close>,
  \<open>'number of key presses before page turn'\<close>,
  \<open>'number of pixels to scroll per mouse wheel event'\<close> and
  \<open>'number of pixels to scroll per key event'\<close>. The percentage is a Python float; it
  is modelled by a rational number, and products with it are exact.
\<close>

record prefs =
  smart_scroll :: bool
  invert_smart_scroll :: bool
  smart_scroll_percentage :: rat
  flip_with_wheel :: bool
  key_presses_before_page_turn :: int
  pixels_per_wheel_event :: int
  pixels_per_key_event :: int

text \<open>
  The operations of the main window that the handler uses. \<open>scroll\<close> and
  \<open>scroll_to_fixed\<close> return whether they moved the view, together with the new window
  state; the queries read the window state only.
\<close>

record 'w window_ops =
  scroll :: "int \<Rightarrow> int \<Rightarrow> subpage option \<Rightarrow> 'w \<Rightarrow> bool \<times> 'w"
  scroll_to_fixed :: "horiz option \<Rightarrow> vert option \<Rightarrow> 'w \<Rightarrow> bool \<times> 'w"
  next_page :: "'w \<Rightarrow> 'w"
  previous_page :: "'w \<Rightarrow> 'w"
  displayed_double :: "'w \<Rightarrow> bool"
  is_on_first_page :: "'w \<Rightarrow> bool"
  is_manga_mode :: "'w \<Rightarrow> bool"
  get_visible_area_size :: "'w \<Rightarrow> int \<times> int"
  is_scrollable_vertically :: "'w \<Rightarrow> bool"

text \<open>
  The fields of \<open>EventHandler\<close> that the scrolling code reads and writes, the current
  state of its window, and the log of the calls made on the window so far.
\<close>

record 'w handler =
  extra_scroll_events :: int
  scroll_protection :: bool
  last_scroll_was_direction_1 :: bool
  win :: 'w
  calls :: "call list"

text \<open>The only exception the scrolling code raises itself: the failed \<open>assert False\<close>.\<close>

datatype error = AssertionError

subsection \<open>Calls on the window\<close>

definition do_scroll ::
  "'w window_ops \<Rightarrow> int \<Rightarrow> int \<Rightarrow> subpage option \<Rightarrow> 'w handler \<Rightarrow> bool \<times> 'w handler" where
  "do_scroll W x y b s =
     (case scroll W x y b (win s) of
        (r, w') \<Rightarrow> (r, s\<lparr>win := w', calls := calls s @ [Scroll x y b]\<rparr>))"

definition do_scroll_to_fixed ::
  "'w window_ops \<Rightarrow> horiz option \<Rightarrow> vert option \<Rightarrow> 'w handler \<Rightarrow> bool \<times> 'w handler" where
  "do_scroll_to_fixed W h v s =
     (case scroll_to_fixed W h v (win s) of
        (r, w') \<Rightarrow> (r, s\<lparr>win := w', calls := calls s @ [ScrollToFixed h v]\<rparr>))"

definition do_next_page :: "'w window_ops \<Rightarrow> 'w handler \<Rightarrow> 'w handler" where
  "do_next_page W s = s\<lparr>win := next_page W (win s), calls := calls s @ [NextPage]\<rparr>"

definition do_previous_page :: "'w window_ops \<Rightarrow> 'w handler \<Rightarrow> 'w handler" where
  "do_previous_page W s =
     s\<lparr>win := previous_page W (win s), calls := calls s @ [PreviousPage]\<rparr>"

subsection \<open>Flipping pages with protection\<close>

text \<open>
  \<open>_next_page_with_protection\<close> and \<open>_previous_page_with_protection\<close>. The result
  is the returned flag (whether the page was flipped) and the handler afterwards, or the
  assertion failure of the last branch.
\<close>

definition next_page_with_protection ::
  "prefs \<Rightarrow> 'w window_ops \<Rightarrow> 'w handler \<Rightarrow> error + (bool \<times> 'w handler)" where
  "next_page_with_protection P W s =
     (if \<not> flip_with_wheel P then
        Inr (False, s\<lparr>extra_scroll_events := 0\<rparr>)
      else if \<not> scroll_protection s
            \<or> extra_scroll_events s \<ge> key_presses_before_page_turn P - 1
            \<or> \<not> is_scrollable_vertically W (win s) then
        Inr (True, do_next_page W (s\<lparr>extra_scroll_events := 0\<rparr>))
      else if scroll_protection s then
        Inr (False, s\<lparr>extra_scroll_events := max 1 (extra_scroll_events s + 1)\<rparr>)
      else
        Inl AssertionError)"

definition previous_page_with_protection ::
  "prefs \<Rightarrow> 'w window_ops \<Rightarrow> 'w handler \<Rightarrow> error + (bool \<times> 'w handler)" where
  "previous_page_with_protection P W s =
     (if \<not> flip_with_wheel P then
        Inr (False, s\<lparr>extra_scroll_events := 0\<rparr>)
      else if \<not> scroll_protection s
            \<or> extra_scroll_events s \<le> - key_presses_before_page_turn P + 1
            \<or> \<not> is_scrollable_vertically W (win s) then
        Inr (True, do_previous_page W (s\<lparr>extra_scroll_events := 0\<rparr>))
      else if scroll_protection s then
        Inr (False, s\<lparr>extra_scroll_events := min (- 1) (extra_scroll_events s - 1)\<rparr>)
      else
        Inl AssertionError)"

text \<open>
  A series of consecutive flip attempts in one direction, as a repeated wheel tick or key
  press at the end of the page makes them: the flags returned, in order, and the handler
  after the last attempt. The series stops at an assertion failure.
\<close>

fun next_attempts ::
  "prefs \<Rightarrow> 'w window_ops \<Rightarrow> nat \<Rightarrow> 'w handler \<Rightarrow> error + (bool list \<times> 'w handler)" where
  "next_attempts P W 0 s = Inr ([], s)"
| "next_attempts P W (Suc n) s =
     (case next_page_with_protection P W s of
        Inl e \<Rightarrow> Inl e
      | Inr (r, s') \<Rightarrow>
          (case next_attempts P W n s' of
             Inl e \<Rightarrow> Inl e
           | Inr (rs, s'') \<Rightarrow> Inr (r # rs, s'')))"

fun previous_attempts ::
  "prefs \<Rightarrow> 'w window_ops \<Rightarrow> nat \<Rightarrow> 'w handler \<Rightarrow> error + (bool list \<times> 'w handler)" where
  "previous_attempts P W 0 s = Inr ([], s)"
| "previous_attempts P W (Suc n) s =
     (case previous_page_with_protection P W s of
        Inl e \<Rightarrow> Inl e
      | Inr (r, s') \<Rightarrow>
          (case previous_attempts P W n s' of
             Inl e \<Rightarrow> Inl e
           | Inr (rs, s'') \<Rightarrow> Inr (r # rs, s'')))"

subsection \<open>Step sizes of smart scrolling\<close>

text \<open>
  Python's \<open>int(x)\<close> on a float truncates towards zero. The float product
  \<open>width * distance\<close> is modelled by the exact product; the two agree whenever the
  exact product is a float, as it is for the percentage 0.5.
\<close>

definition py_int :: "rat \<Rightarrow> int" where
  "py_int q = (if q < 0 then - \<lfloor>- q\<rfloor> else \<lfloor>q\<rfloor>)"

text \<open>
  The idiom \<open>a and b or c\<close> for a boolean \<open>a\<close> and integers \<open>b\<close>, \<open>c\<close>: it is
  \<open>b\<close> when \<open>a\<close> holds and \<open>b\<close> is not zero, and \<open>c\<close> otherwise.
\<close>

definition and_or :: "bool \<Rightarrow> int \<Rightarrow> int \<Rightarrow> int" where
  "and_or a b c = (if a \<and> b \<noteq> 0 then b else c)"

text \<open>
  The step computation that opens both \<open>_smart_scroll_down\<close> and
  \<open>_smart_scroll_up\<close> (the same lines in both), up to the exchange under
  \<open>'invert smart scroll'\<close>. The result is
  \<open>(x_step_small, y_step_small, x_step_large, y_step_large)\<close>. The second tuple
  assignment of the source reads \<open>x_step_small\<close>, not \<open>x_step_large\<close>, on its right.
\<close>

definition step_sizes :: "prefs \<Rightarrow> int \<Rightarrow> int \<Rightarrow> int option \<Rightarrow> int \<times> int \<times> int \<times> int" where
  "step_sizes P width height small_step =
     (let distance = smart_scroll_percentage P in
      case small_step of
        None \<Rightarrow>
          (py_int (of_int width * distance), py_int (of_int height * distance),
           py_int (of_int width * distance), py_int (of_int height * distance))
      | Some st \<Rightarrow>
          (let x_step_small = st;
               y_step_small = st;
               x_step_large = py_int (of_int width * distance);
               y_step_large = py_int (of_int height * distance)
           in if invert_smart_scroll P then
                (case (y_step_small, x_step_small) of
                   (x_step_small, y_step_small) \<Rightarrow>
                     (case (y_step_large, x_step_small) of
                        (x_step_large, y_step_large) \<Rightarrow>
                          (x_step_small, y_step_small, x_step_large, y_step_large)))
              else (x_step_small, y_step_small, x_step_large, y_step_large)))"

text \<open>The steps after the adjustment for manga mode, as the rest of both functions uses them.\<close>

definition scroll_steps ::
  "prefs \<Rightarrow> 'w window_ops \<Rightarrow> 'w \<Rightarrow> int option \<Rightarrow> int \<times> int \<times> int \<times> int" where
  "scroll_steps P W w small_step =
     (case get_visible_area_size W w of
        (width, height) \<Rightarrow>
          (case step_sizes P width height small_step of
             (x_step_small, y_step_small, x_step_large, y_step_large) \<Rightarrow>
               if is_manga_mode W w
               then (x_step_small * - 1, y_step_small, x_step_large * - 1, y_step_large)
               else (x_step_small, y_step_small, x_step_large, y_step_large)))"

subsection \<open>Smart scrolling\<close>

text \<open>A call whose returned flag is not used.\<close>

definition discard :: "error + ('a \<times> 's) \<Rightarrow> error + 's" where
  "discard r = (case r of Inl e \<Rightarrow> Inl e | Inr (x, s) \<Rightarrow> Inr s)"

definition smart_scroll_down ::
  "prefs \<Rightarrow> 'w window_ops \<Rightarrow> int option \<Rightarrow> 'w handler \<Rightarrow> error + 'w handler" where
  "smart_scroll_down P W small_step s =
     (case scroll_steps P W (win s) small_step of
        (x_step_small, y_step_small, x_step_large, y_step_large) \<Rightarrow>
     if \<not> smart_scroll P then
       (case do_scroll W 0 y_step_small None s of
          (r, s1) \<Rightarrow>
            if \<not> r then discard (next_page_with_protection P W s1) else Inr s1)
     else if displayed_double W (win s) then
       (if is_on_first_page W (win s) then
          (let last_scroll = last_scroll_was_direction_1 s in
           case do_scroll W x_step_small 0 (Some First) s of
             (r1, s1) \<Rightarrow>
               (let s1 = s1\<lparr>last_scroll_was_direction_1 := r1\<rparr> in
                if \<not> r1 then
                  (let scroll_size = and_or last_scroll y_step_large y_step_small in
                   case do_scroll W 0 scroll_size None s1 of
                     (r2, s2) \<Rightarrow>
                       if \<not> r2 then
                         (case do_scroll_to_fixed W (Some Startsecond) None s2 of
                            (r3, s3) \<Rightarrow>
                              if \<not> r3 then discard (next_page_with_protection P W s3)
                              else Inr (snd (do_scroll_to_fixed W None (Some Vtop) s3)))
                       else Inr (snd (do_scroll_to_fixed W (Some Startfirst) None s2)))
                else Inr s1))
        else
          (let last_scroll = last_scroll_was_direction_1 s in
           case do_scroll W x_step_small 0 (Some Second) s of
             (r1, s1) \<Rightarrow>
               (let s1 = s1\<lparr>last_scroll_was_direction_1 := r1\<rparr> in
                if \<not> r1 then
                  (let scroll_size = and_or last_scroll y_step_large y_step_small in
                   case do_scroll W 0 scroll_size None s1 of
                     (r2, s2) \<Rightarrow>
                       if \<not> r2 then discard (next_page_with_protection P W s2)
                       else Inr (snd (do_scroll_to_fixed W (Some Startsecond) None s2)))
                else Inr s1)))
     else
       (if \<not> invert_smart_scroll P then
          (let last_scroll = last_scroll_was_direction_1 s in
           case do_scroll W x_step_small 0 None s of
             (r1, s1) \<Rightarrow>
               (let s1 = s1\<lparr>last_scroll_was_direction_1 := r1\<rparr> in
                if \<not> r1 then
                  (let scroll_size = and_or last_scroll y_step_large y_step_small in
                   case do_scroll W 0 scroll_size None s1 of
                     (r2, s2) \<Rightarrow>
                       if \<not> r2 then discard (next_page_with_protection P W s2)
                       else Inr (snd (do_scroll_to_fixed W (Some Startfirst) None s2)))
                else Inr s1))
        else
          (let last_scroll = last_scroll_was_direction_1 s in
           case do_scroll W 0 y_step_small None s of
             (r1, s1) \<Rightarrow>
               (let s1 = s1\<lparr>last_scroll_was_direction_1 := r1\<rparr> in
                if \<not> r1 then
                  (let scroll_size = and_or last_scroll x_step_large x_step_small in
                   case do_scroll W scroll_size 0 None s1 of
                     (r2, s2) \<Rightarrow>
                       if \<not> r2 then discard (next_page_with_protection P W s2)
                       else Inr (snd (do_scroll_to_fixed W (Some Startsecond) (Some Vtop) s2)))
                else Inr s1))))"

definition smart_scroll_up ::
  "prefs \<Rightarrow> 'w window_ops \<Rightarrow> int option \<Rightarrow> 'w handler \<Rightarrow> error + 'w handler" where
  "smart_scroll_up P W small_step s =
     (case scroll_steps P W (win s) small_step of
        (x_step_small, y_step_small, x_step_large, y_step_large) \<Rightarrow>
     if \<not> smart_scroll P then
       (case do_scroll W 0 (- y_step_small) None s of
          (r, s1) \<Rightarrow>
            if \<not> r then discard (previous_page_with_protection P W s1) else Inr s1)
     else if displayed_double W (win s) then
       (if is_on_first_page W (win s) then
          (let last_scroll = last_scroll_was_direction_1 s in
           case do_scroll W (- x_step_small) 0 (Some First) s of
             (r1, s1) \<Rightarrow>
               (let s1 = s1\<lparr>last_scroll_was_direction_1 := r1\<rparr> in
                if \<not> r1 then
                  (let scroll_size = and_or last_scroll y_step_large y_step_small in
                   case do_scroll W 0 (- scroll_size) None s1 of
                     (r2, s2) \<Rightarrow>
                       if \<not> r2 then discard (previous_page_with_protection P W s2)
                       else Inr (snd (do_scroll_to_fixed W (Some Endfirst) None s2)))
                else Inr s1))
        else
          (let last_scroll = last_scroll_was_direction_1 s in
           case do_scroll W (- x_step_small) 0 (Some Second) s of
             (r1, s1) \<Rightarrow>
               (let s1 = s1\<lparr>last_scroll_was_direction_1 := r1\<rparr> in
                if \<not> r1 then
                  (let scroll_size = and_or last_scroll y_step_large y_step_small in
                   case do_scroll W 0 (- scroll_size) None s1 of
                     (r2, s2) \<Rightarrow>
                       if \<not> r2 then
                         (case do_scroll_to_fixed W (Some Endfirst) None s2 of
                            (r3, s3) \<Rightarrow>
                              if \<not> r3 then discard (previous_page_with_protection P W s3)
                              else Inr (snd (do_scroll_to_fixed W None (Some Vbottom) s3)))
                       else Inr (snd (do_scroll_to_fixed W (Some Endsecond) None s2)))
                else Inr s1)))
     else
       (if \<not> invert_smart_scroll P then
          (let last_scroll = last_scroll_was_direction_1 s in
           case do_scroll W (- x_step_small) 0 None s of
             (r1, s1) \<Rightarrow>
               (let s1 = s1\<lparr>last_scroll_was_direction_1 := r1\<rparr> in
                if \<not> r1 then
                  (let scroll_size = and_or last_scroll y_step_large y_step_small in
                   case do_scroll W 0 (- scroll_size) None s1 of
                     (r2, s2) \<Rightarrow>
                       if \<not> r2 then discard (previous_page_with_protection P W s2)
                       else Inr (snd (do_scroll_to_fixed W (Some Endfirst) None s2)))
                else Inr s1))
        else
          (let last_scroll = last_scroll_was_direction_1 s in
           case do_scroll W 0 (- y_step_small) None s of
             (r1, s1) \<Rightarrow>
               (let s1 = s1\<lparr>last_scroll_was_direction_1 := r1\<rparr> in
                if \<not> r1 then
                  (let scroll_size = and_or last_scroll x_step_large x_step_small in
                   case do_scroll W (- scroll_size) 0 None s1 of
                     (r2, s2) \<Rightarrow>
                       if \<not> r2 then discard (previous_page_with_protection P W s2)
                       else Inr (snd (do_scroll_to_fixed W (Some Startfirst) (Some Vbottom) s2)))
                else Inr s1))))"

subsection \<open>Scrolling with the arrow keys and the wheel\<close>

text \<open>
  \<open>_scroll_with_flipping\<close>: the flag is \<open>True\<close> when the view scrolled without a
  flip, and the negation of what the flip operation returned otherwise.
\<close>

definition scroll_with_flipping ::
  "prefs \<Rightarrow> 'w window_ops \<Rightarrow> int \<Rightarrow> int \<Rightarrow> 'w handler \<Rightarrow> error + (bool \<times> 'w handler)" where
  "scroll_with_flipping P W x y s =
     (let s = s\<lparr>scroll_protection := True, last_scroll_was_direction_1 := False\<rparr> in
      case do_scroll W x y None s of
        (r, s1) \<Rightarrow>
          if r then Inr (True, s1\<lparr>extra_scroll_events := 0\<rparr>)
          else
            (let forwards_scroll =
                   (y > 0 \<or> (is_manga_mode W (win s1) \<and> x < 0)
                    \<or> (\<not> is_manga_mode W (win s1) \<and> x > 0))
             in if forwards_scroll then
                  (case next_page_with_protection P W s1 of
                     Inl e \<Rightarrow> Inl e
                   | Inr (f, s2) \<Rightarrow> Inr (\<not> f, s2))
                else
                  (case previous_page_with_protection P W s1 of
                     Inl e \<Rightarrow> Inl e
                   | Inr (f, s2) \<Rightarrow> Inr (\<not> f, s2))))"

definition scroll_down :: "prefs \<Rightarrow> 'w window_ops \<Rightarrow> 'w handler \<Rightarrow> error + 'w handler" where
  "scroll_down P W s = discard (scroll_with_flipping P W 0 (pixels_per_key_event P) s)"

definition scroll_up :: "prefs \<Rightarrow> 'w window_ops \<Rightarrow> 'w handler \<Rightarrow> error + 'w handler" where
  "scroll_up P W s = discard (scroll_with_flipping P W 0 (- pixels_per_key_event P) s)"

definition scroll_right :: "prefs \<Rightarrow> 'w window_ops \<Rightarrow> 'w handler \<Rightarrow> error + 'w handler" where
  "scroll_right P W s = discard (scroll_with_flipping P W (pixels_per_key_event P) 0 s)"

definition scroll_left :: "prefs \<Rightarrow> 'w window_ops \<Rightarrow> 'w handler \<Rightarrow> error + 'w handler" where
  "scroll_left P W s = discard (scroll_with_flipping P W (- pixels_per_key_event P) 0 s)"

text \<open>
  \<open>scroll_wheel_event\<close>. Of the event it reads whether the middle button is held
  (\<open>'GDK_BUTTON2_MASK'\<close> among the state names) and the direction of the tick.
\<close>

datatype scroll_direction = SCROLL_UP | SCROLL_DOWN | SCROLL_LEFT | SCROLL_RIGHT

record wheel_event =
  button2_mask :: bool
  direction :: scroll_direction

definition scroll_wheel_event ::
  "prefs \<Rightarrow> 'w window_ops \<Rightarrow> wheel_event \<Rightarrow> 'w handler \<Rightarrow> error + 'w handler" where
  "scroll_wheel_event P W event s =
     (if button2_mask event then Inr s
      else
        (let s = s\<lparr>scroll_protection := True\<rparr> in
         case direction event of
           SCROLL_UP \<Rightarrow>
             if smart_scroll P then smart_scroll_up P W (Some (pixels_per_wheel_event P)) s
             else discard (scroll_with_flipping P W 0 (- pixels_per_wheel_event P) s)
         | SCROLL_DOWN \<Rightarrow>
             if smart_scroll P then smart_scroll_down P W (Some (pixels_per_wheel_event P)) s
             else discard (scroll_with_flipping P W 0 (pixels_per_wheel_event P) s)
         | SCROLL_RIGHT \<Rightarrow>
             if \<not> is_manga_mode W (win s) then Inr (do_next_page W s)
             else discard (previous_page_with_protection P W s)
         | SCROLL_LEFT \<Rightarrow>
             if \<not> is_manga_mode W (win s) then discard (previous_page_with_protection P W s)
             else Inr (do_next_page W s)))"

subsection \<open>Key presses\<close>

text \<open>
  The callbacks that \<open>register_key_events\<close> registers. The keybinding manager is
  defined outside \<open>event.py\<close>; the callback it finds for a key enters the model as a
  parameter (\<open>None\<close> when the key is not bound). The callbacks that do not scroll
  (escape, fullscreen, zoom, info panel, external command) touch no field of the handler;
  what they do to the window is a function on the window state.
\<close>

datatype 'w binding =
    Previous_page
  | Next_page
  | Scroll_to_fixed horiz vert
  | Scroll_down
  | Scroll_up
  | Scroll_right
  | Scroll_left
  | Smart_scroll_down
  | Smart_scroll_up
  | Other_binding "'w \<Rightarrow> 'w"

definition execute ::
  "prefs \<Rightarrow> 'w window_ops \<Rightarrow> 'w binding \<Rightarrow> 'w handler \<Rightarrow> error + 'w handler" where
  "execute P W b s =
     (case b of
        Previous_page \<Rightarrow> Inr (do_previous_page W s)
      | Next_page \<Rightarrow> Inr (do_next_page W s)
      | Scroll_to_fixed h v \<Rightarrow> Inr (snd (do_scroll_to_fixed W (Some h) (Some v) s))
      | Scroll_down \<Rightarrow> scroll_down P W s
      | Scroll_up \<Rightarrow> scroll_up P W s
      | Scroll_right \<Rightarrow> scroll_right P W s
      | Scroll_left \<Rightarrow> scroll_left P W s
      | Smart_scroll_down \<Rightarrow> smart_scroll_down P W None s
      | Smart_scroll_up \<Rightarrow> smart_scroll_up P W None s
      | Other_binding f \<Rightarrow> Inr (s\<lparr>win := f (win s)\<rparr>))"

text \<open>
  \<open>key_press_event\<close>, as far as the handler's fields go: the protection flag is
  cleared, then the binding runs. What follows in the source (the Control key, stopping
  the signal) touches neither the fields nor the scroll position.
\<close>

definition key_press_event ::
  "prefs \<Rightarrow> 'w window_ops \<Rightarrow> 'w binding option \<Rightarrow> 'w handler \<Rightarrow> error + 'w handler" where
  "key_press_event P W b s =
     (let s = s\<lparr>scroll_protection := False\<rparr> in
      case b of None \<Rightarrow> Inr s | Some c \<Rightarrow> execute P W c s)"

subsection \<open>Warping the cursor\<close>

text \<open>
  \<open>_valwarp\<close>, with its defaults passed explicitly. The coordinates are numbers of any
  linearly ordered ring (the integers, or the reals that the pointer's floats stand for).
\<close>

definition valwarp :: "'a::linordered_idom \<Rightarrow> 'a \<Rightarrow> 'a \<Rightarrow> 'a \<Rightarrow> 'a \<Rightarrow> 'a" where
  "valwarp cur maxval minval tolerance extra =
     (if cur < minval + tolerance then
        (let overmove = minval + tolerance - cur
         in maxval - tolerance - overmove - extra)
      else if (maxval - cur) < tolerance then
        (let overmove = tolerance - (maxval - cur)
         in minval + tolerance + overmove + extra)
      else cur)"

text \<open>The call with the defaults \<open>minval=0, tolerance=3, extra=2\<close>.\<close>

definition valwarp_default :: "'a::linordered_idom \<Rightarrow> 'a \<Rightarrow> 'a" where
  "valwarp_default cur maxval = valwarp cur maxval 0 3 2"

text \<open>Whether a call warps: one of the two border branches is taken.\<close>

definition warps :: "'a::linordered_idom \<Rightarrow> 'a \<Rightarrow> 'a \<Rightarrow> 'a \<Rightarrow> bool" where
  "warps cur maxval minval tolerance \<longleftrightarrow>
     cur < minval + tolerance \<or> (maxval - cur) < tolerance"

subsection \<open>An example window\<close>

text \<open>
  A window for concrete runs: a page that is higher than the view and already scrolled to
  its end, so that every scroll request is refused; flipping pages counts them.
\<close>

record page_state =
  page_no :: int
  manga :: bool
  double_page :: bool
  first_page :: bool
  scrollable :: bool
  area :: "int \<times> int"

definition stuck_window :: "page_state window_ops" where
  "stuck_window =
     \<lparr>scroll = (\<lambda>x y b w. (False, w)),
      scroll_to_fixed = (\<lambda>h v w. (False, w)),
      next_page = (\<lambda>w. w\<lparr>page_no := page_no w + 1\<rparr>),
      previous_page = (\<lambda>w. w\<lparr>page_no := page_no w - 1\<rparr>),
      displayed_double = double_page,
      is_on_first_page = first_page,
      is_manga_mode = manga,
      get_visible_area_size = area,
      is_scrollable_vertically = scrollable\<rparr>"

definition page0 :: page_state where
  "page0 = \<lparr>page_no = 0, manga = False, double_page = False, first_page = True,
            scrollable = True, area = (800, 600)\<rparr>"

definition handler0 :: "page_state handler" where
  "handler0 = \<lparr>extra_scroll_events = 0, scroll_protection = True,
               last_scroll_was_direction_1 = False, win = page0, calls = []\<rparr>"

definition prefs0 :: prefs where
  "prefs0 = \<lparr>smart_scroll = True, invert_smart_scroll = False,
             smart_scroll_percentage = 1 / 2, flip_with_wheel = True,
             key_presses_before_page_turn = 3, pixels_per_wheel_event = 40,
             pixels_per_key_event = 30\<rparr>"

section \<open>Properties of the page-flip protection\<close>

lemma next_page_with_protection_cases:
  "next_page_with_protection P W s =
     (if \<not> flip_with_wheel P then Inr (False, s\<lparr>extra_scroll_events := 0\<rparr>)
      else if \<not> scroll_protection s
            \<or> extra_scroll_events s \<ge> key_presses_before_page_turn P - 1
            \<or> \<not> is_scrollable_vertically W (win s)
      then Inr (True, do_next_page W (s\<lparr>extra_scroll_events := 0\<rparr>))
      else Inr (False, s\<lparr>extra_scroll_events := max 1 (extra_scroll_events s + 1)\<rparr>))"
  by (simp add: next_page_with_protection_def)

lemma previous_page_with_protection_cases:
  "previous_page_with_protection P W s =
     (if \<not> flip_with_wheel P then Inr (False, s\<lparr>extra_scroll_events := 0\<rparr>)
      else if \<not> scroll_protection s
            \<or> extra_scroll_events s \<le> - key_presses_before_page_turn P + 1
            \<or> \<not> is_scrollable_vertically W (win s)
      then Inr (True, do_previous_page W (s\<lparr>extra_scroll_events := 0\<rparr>))
      else Inr (False, s\<lparr>extra_scroll_events := min (- 1) (extra_scroll_events s - 1)\<rparr>))"
  by (simp add: previous_page_with_protection_def)

text \<open>
  C8. When \<open>'flip with wheel'\<close> is off, both operations return \<open>False\<close>, set
  \<open>_extra_scroll_events\<close> to 0 whatever it was, and leave the window and the log of
  calls as they were: neither \<open>next_page\<close> nor \<open>previous_page\<close> is called.
\<close>

theorem flip_disabled_no_flip:
  assumes "\<not> flip_with_wheel P"
  shows "next_page_with_protection P W s = Inr (False, s\<lparr>extra_scroll_events := 0\<rparr>)
       \<and> previous_page_with_protection P W s = Inr (False, s\<lparr>extra_scroll_events := 0\<rparr>)
       \<and> calls (s\<lparr>extra_scroll_events := 0\<rparr>) = calls s
       \<and> win (s\<lparr>extra_scroll_events := 0\<rparr>) = win s"
  using assms
  by (simp add: next_page_with_protection_def previous_page_with_protection_def)

theorem flip_disabled_no_flip_witness:
  "\<not> flip_with_wheel (prefs0\<lparr>flip_with_wheel := False\<rparr>)
   \<and> next_page_with_protection (prefs0\<lparr>flip_with_wheel := False\<rparr>) stuck_window
        (handler0\<lparr>extra_scroll_events := 2\<rparr>)
      = Inr (False, handler0)
   \<and> previous_page_with_protection (prefs0\<lparr>flip_with_wheel := False\<rparr>) stuck_window
        (handler0\<lparr>extra_scroll_events := 2\<rparr>)
      = Inr (False, handler0)"
  using flip_disabled_no_flip [of "prefs0\<lparr>flip_with_wheel := False\<rparr>" stuck_window
      "handler0\<lparr>extra_scroll_events := 2\<rparr>"]
  by (simp add: prefs0_def handler0_def)

end
